theory Spec2Isabelle
  imports Main
begin

section \<open>Python values, exceptions and string helpers\<close>

text \<open>
  The handler of \<^verbatim>\<open>getresults_tx/event_handlers.py\<close> is dynamically typed where it
  matters: a routing selection is a bare path, \<^verbatim>\<open>None\<close>, or a list or tuple. The values
  that reach the code are the following. A \<open>string\<close> is a list of characters; the source's
  strings are paths and mime types.
\<close>

datatype pyval = PNone | PStr string | PTuple "pyval list" | PList "pyval list"

datatype exn =
    TypeError string
  | ValueError string
  | AttributeError string
  | KeyError string
  | IndexError string
  | IsADirectoryError string
  | OtherError string

text \<open>\<^verbatim>\<open>s.startswith(p)\<close> and \<^verbatim>\<open>needle in s\<close> on strings.\<close>

fun startswith :: "string \<Rightarrow> string \<Rightarrow> bool" where
  "startswith s [] = True"
| "startswith [] (p # ps) = False"
| "startswith (c # cs) (p # ps) = (c = p \<and> startswith cs ps)"

fun str_contains :: "string \<Rightarrow> string \<Rightarrow> bool" where
  "str_contains needle [] = (needle = [])"
| "str_contains needle (c # cs) = (startswith (c # cs) needle \<or> str_contains needle cs)"

text \<open>
  \<^verbatim>\<open>s.split(sep)\<close> for a one-character separator: the result is never empty, and a
  string with \<open>n\<close> separators has \<open>n + 1\<close> fields.
\<close>

fun split_on :: "char \<Rightarrow> string \<Rightarrow> string list" where
  "split_on sep [] = [[]]"
| "split_on sep (c # cs) =
     (if c = sep then [] # split_on sep cs
      else (case split_on sep cs of
              [] \<Rightarrow> [[c]]
            | w # ws \<Rightarrow> (c # w) # ws))"

text \<open>
  \<^verbatim>\<open>s.split('/')[-1:][0]\<close>: the last field. The list that \<^verbatim>\<open>split\<close> returns is
  never empty (lemma \<open>split_on_not_Nil\<close> below), so the index cannot fail.
\<close>

definition last_segment :: "string \<Rightarrow> string" where
  "last_segment s = last (split_on CHR ''/'' s)"

text \<open>\<^verbatim>\<open>os.path.join(a, b)\<close> of \<^verbatim>\<open>posixpath\<close>, for two arguments.\<close>

definition path_join :: "string \<Rightarrow> string \<Rightarrow> string" where
  "path_join a b =
     (if startswith b ''/'' then b
      else if a = [] \<or> last a = CHR ''/'' then a @ b
      else a @ ''/'' @ b)"

section \<open>Archive names\<close>

definition ascii_uppercase :: string where
  "ascii_uppercase = ''ABCDEFGHIJKLMNOPQRSTUVWXYZ''"

definition digits :: string where
  "digits = ''0123456789''"

text \<open>
  \<^verbatim>\<open>random.SystemRandom().choice(seq)\<close> returns \<^verbatim>\<open>seq[randbelow(len(seq))]\<close>. The
  entropy is a parameter: \<open>r\<close> is the raw draw, reduced below \<open>length seq\<close>.
\<close>

definition choice :: "'a list \<Rightarrow> nat \<Rightarrow> 'a" where
  "choice seq r = seq ! (r mod length seq)"

text \<open>The five draws of \<^verbatim>\<open>archive_filename\<close>; \<open>rnd i\<close> is the \<open>i\<close>-th raw draw.\<close>

definition random_suffix :: "(nat \<Rightarrow> nat) \<Rightarrow> string" where
  "random_suffix rnd = map (\<lambda>i. choice (ascii_uppercase @ digits) (rnd i)) [0..<5]"

text \<open>
  \<^verbatim>\<open>
  def archive_filename(self, filename):
      suffix = ''.join(random.SystemRandom().choice(
          string.ascii_uppercase + string.digits) for _ in range(5))
      try:
          f, ext = filename.split('.')
      except ValueError:
          f, ext = filename, ''
      return '.'.join(['{}_{}'.format(f, suffix), ext])
  \<close>
  Unpacking into two names raises ValueError unless the list has exactly two items.
\<close>

definition archive_filename :: "(nat \<Rightarrow> nat) \<Rightarrow> string \<Rightarrow> string" where
  "archive_filename rnd filename =
     (let suffix = random_suffix rnd;
          (f, ext) = (case split_on CHR ''.'' filename of
                        [f, ext] \<Rightarrow> (f, ext)
                      | _ \<Rightarrow> (filename, ''''))
      in (f @ ''_'' @ suffix) @ ''.'' @ ext)"


section \<open>The handler, its collaborators and their effects\<close>

datatype event_kind = Created | Modified | Deleted | Moved

record event =
  event_type :: event_kind
  src_path :: string
  is_directory :: bool

datatype tx_status = TX_SENT

text \<open>
  The dictionary that \<^verbatim>\<open>statinfo\<close> builds, with the key \<^verbatim>\<open>archive_filename\<close> that
  \<^verbatim>\<open>process_added\<close> adds later (\<open>None\<close>: the key is not there). The timestamp is the
  file's \<^verbatim>\<open>st_mtime\<close>; its conversion to a time of the configured zone is not modelled.
\<close>

record fileinfo =
  fi_path :: string
  fi_filename :: string
  fi_size :: nat
  fi_timestamp :: int
  fi_archive_filename :: "string option"

text \<open>The row of the model \<^verbatim>\<open>History\<close> that \<^verbatim>\<open>update_history\<close> saves.\<close>

record history =
  h_hostname :: string
  h_remote_hostname :: string
  h_path :: string
  h_remote_path :: string
  h_remote_folder :: string
  h_remote_folder_hint :: pyval
  h_archive_path :: "string option"
  h_filename :: string
  h_filesize :: nat
  h_filetimestamp :: int
  h_mime_type :: string
  h_status :: tx_status
  h_sent_datetime :: int
  h_user :: string
  h_archive_name :: "string option"

text \<open>A row of the model \<^verbatim>\<open>RemoteFolder\<close>, with the fields the handler reads.\<close>

record remote_folder_row =
  rf_base_path :: string
  rf_name :: string
  rf_folder :: string
  rf_file_hint :: string

type_synonym subdirs = "(string \<times> string) list"

text \<open>
  The instance. \<^verbatim>\<open>__init__\<close> sets \<open>hostname\<close>, \<open>user\<close>, the patterns, the directory
  flag and \<^verbatim>\<open>_destination_subdirs\<close>; \<open>source_dir\<close>, \<open>destination_dir\<close>,
  \<open>archive_dir\<close> and \<open>mime_types\<close> are read by the methods and set by the owner of the
  handler. The attributes \<^verbatim>\<open>_remote_subfolders\<close> and \<^verbatim>\<open>remote_folder\<close> are read by
  \<^verbatim>\<open>destination_subdirs\<close> and set nowhere in the class: \<open>None\<close> is an attribute that
  does not exist. Dictionaries are association lists.
\<close>

record handler =
  hostname :: string
  user :: string
  patterns :: "string list"
  ignore_directories :: bool
  source_dir :: string
  destination_dir :: string
  archive_dir :: "string option"
  mime_types :: "string list option"
  destination_subdirs_attr :: "(string \<times> subdirs) list"
  remote_subfolders_attr :: "(string \<times> subdirs) list option"
  remote_folder_attr :: "(string \<Rightarrow> string \<Rightarrow> string) option"

text \<open>
  \<^verbatim>\<open>
  def __init__(self, hostname, timeout, patterns):        # BaseEventHandler
      self.hostname = hostname or 'localhost'
      self.timeout = timeout or 5.0
      self.user = pwd.getpwuid(os.getuid()).pw_name
      super(BaseEventHandler, self).__init__(
          patterns=patterns, ignore_directories=True)

  def __init__(self, *args):                              # RemoteFolderEventHandler
      super(RemoteFolderEventHandler, self).__init__(patterns=['*.*'], *args)
      self._destination_subdirs = {}
  \<close>
  The timeout is a float used by the connection only and is left out. \<open>pw_name\<close> is the
  name of the operating user.
\<close>

definition truthy :: "string option \<Rightarrow> bool" where
  "truthy v = (case v of None \<Rightarrow> False | Some s \<Rightarrow> s \<noteq> [])"

definition RemoteFolderEventHandler_init ::
  "string option \<Rightarrow> string \<Rightarrow> string \<Rightarrow> string \<Rightarrow> string option \<Rightarrow> string list option \<Rightarrow> handler"
where
  "RemoteFolderEventHandler_init hostname_arg pw_name src dst arch mimes =
     \<lparr> hostname = (if truthy hostname_arg then the hostname_arg else ''localhost''),
       user = pw_name,
       patterns = [''*.*''],
       ignore_directories = True,
       source_dir = src,
       destination_dir = dst,
       archive_dir = arch,
       mime_types = mimes,
       destination_subdirs_attr = [],
       remote_subfolders_attr = None,
       remote_folder_attr = None \<rparr>"

text \<open>
  What the world outside the handler answers: the outcome of each call the handler makes
  to the session, the classifier, the routing strategy, the file system, the audit store,
  the clock and the random source. An exception of a call is \<open>Inl\<close> (or \<open>Some\<close> for a
  call that returns nothing).
\<close>

record env =
  connect_outcome :: "exn option"
  magic_from_file :: "string \<Rightarrow> exn + string"
  folder_handler_select :: "string \<Rightarrow> string \<Rightarrow> string \<Rightarrow> exn + pyval"
  os_path_isfile :: "string \<Rightarrow> bool"
  os_stat :: "string \<Rightarrow> exn + (nat \<times> int)"
  scp_put :: "string \<Rightarrow> string \<Rightarrow> exn option"
  os_rename :: "string \<Rightarrow> string \<Rightarrow> exn option"
  os_remove :: "string \<Rightarrow> exn option"
  history_save :: "history \<Rightarrow> exn option"
  socket_gethostname :: string
  timezone_now :: int
  random_draw :: "nat \<Rightarrow> nat"

text \<open>
  The effects a method has on the world, in the order it performs them. A call that raises
  has no effect.
\<close>

datatype effect =
    Connect string
  | ScpPut string string
  | SaveHistory history
  | Rename string string
  | Remove string

type_synonym 'a io = "effect list \<times> (exn + 'a)"

definition io_return :: "'a \<Rightarrow> 'a io" where
  "io_return a = ([], Inr a)"

definition io_raise :: "exn \<Rightarrow> 'a io" where
  "io_raise e = ([], Inl e)"

definition io_lift :: "exn + 'a \<Rightarrow> 'a io" where
  "io_lift r = ([], r)"

definition io_call :: "exn option \<Rightarrow> effect \<Rightarrow> unit io" where
  "io_call outcome eff = (case outcome of Some e \<Rightarrow> ([], Inl e) | None \<Rightarrow> ([eff], Inr ()))"

definition io_bind :: "'a io \<Rightarrow> ('a \<Rightarrow> 'b io) \<Rightarrow> 'b io" where
  "io_bind m f =
     (case m of
        (tr, Inl e) \<Rightarrow> (tr, Inl e)
      | (tr, Inr a) \<Rightarrow> (case f a of (tr', r) \<Rightarrow> (tr @ tr', r)))"

text \<open>The audit records among the effects.\<close>

fun audit_records :: "effect list \<Rightarrow> history list" where
  "audit_records [] = []"
| "audit_records (SaveHistory h # es) = h # audit_records es"
| "audit_records (e # es) = audit_records es"

text \<open>
  \<^verbatim>\<open>connect\<close> opens the session, or raises what the session raises (for an
  authentication or a host key failure, an exception of the same class with a longer
  message). The session object is not modelled.
\<close>

definition connect :: "handler \<Rightarrow> env \<Rightarrow> unit io" where
  "connect self env = io_call (connect_outcome env) (Connect (hostname self))"

section \<open>Routing\<close>

text \<open>
  \<^verbatim>\<open>
  def select_destination_dir(self, filename, mime_type):
      try:
          return self.folder_handler.select(self, filename, mime_type, self.destination_dir)
      except TypeError as e:
          if 'object is not callable' in str(e):
              return self.destination_dir
          else:
              raise
  \<close>
\<close>

definition select_destination_dir :: "handler \<Rightarrow> env \<Rightarrow> string \<Rightarrow> string \<Rightarrow> exn + pyval" where
  "select_destination_dir self env filename mime_type =
     (case folder_handler_select env filename mime_type (destination_dir self) of
        Inr selection \<Rightarrow> Inr selection
      | Inl (TypeError msg) \<Rightarrow>
          if str_contains ''object is not callable'' msg
          then Inr (PStr (destination_dir self))
          else Inl (TypeError msg)
      | Inl e \<Rightarrow> Inl e)"

section \<open>The copy step\<close>

text \<open>
  \<^verbatim>\<open>
  def statinfo(self, path, filename):
      statinfo = os.stat(os.path.join(self.source_dir, filename))
      return {'path': path, 'filename': filename, 'size': statinfo.st_size,
              'timestamp': tz.localize(datetime.fromtimestamp(statinfo.st_mtime))}
  \<close>
\<close>

definition statinfo :: "handler \<Rightarrow> env \<Rightarrow> string \<Rightarrow> string \<Rightarrow> exn + fileinfo" where
  "statinfo self env path filename =
     (case os_stat env (path_join (source_dir self) filename) of
        Inl e \<Rightarrow> Inl e
      | Inr (st_size, st_mtime) \<Rightarrow>
          Inr \<lparr> fi_path = path, fi_filename = filename, fi_size = st_size,
                fi_timestamp = st_mtime, fi_archive_filename = None \<rparr>)"

text \<open>\<^verbatim>\<open>selection[0]\<close> and \<^verbatim>\<open>os.path.join(destination_dir, filename)\<close> on a value.\<close>

definition item0 :: "pyval list \<Rightarrow> exn + pyval" where
  "item0 xs = (case xs of [] \<Rightarrow> Inl (IndexError ''index out of range'') | x # _ \<Rightarrow> Inr x)"

definition path_join_val :: "pyval \<Rightarrow> string \<Rightarrow> exn + string" where
  "path_join_val d filename =
     (case d of
        PStr s \<Rightarrow> Inr (path_join s filename)
      | _ \<Rightarrow> Inl (TypeError ''expected str, bytes or os.PathLike object''))"

text \<open>
  \<^verbatim>\<open>
  def put(self, scp, filename, mime_type, destination=None):
      selection = self.select_destination_dir(filename, mime_type)
      if isinstance(selection, (list, tuple)):
          destination_dir = selection[0]
      else:
          destination_dir = selection
      source_filename = os.path.join(self.source_dir, filename)
      destination_filename = os.path.join(destination_dir, filename)
      if not os.path.isfile(source_filename):
          return None
      fileinfo = self.statinfo(self.source_dir, filename)
      try:
          scp.put(source_filename, destination_filename)
      except IsADirectoryError:
          fileinfo = None
      return fileinfo, selection
  \<close>
  The method returns the bare \<^verbatim>\<open>None\<close> on one path and a pair on the others.
\<close>

datatype put_result = PutNone | PutPair "fileinfo option" pyval

definition put :: "handler \<Rightarrow> env \<Rightarrow> string \<Rightarrow> string \<Rightarrow> put_result io" where
  "put self env filename mime_type =
     io_bind (io_lift (select_destination_dir self env filename mime_type)) (\<lambda>selection.
     io_bind (io_lift (case selection of
                         PTuple xs \<Rightarrow> item0 xs
                       | PList xs \<Rightarrow> item0 xs
                       | _ \<Rightarrow> Inr selection)) (\<lambda>destination_dir.
     let source_filename = path_join (source_dir self) filename in
     io_bind (io_lift (path_join_val destination_dir filename)) (\<lambda>destination_filename.
     if \<not> os_path_isfile env source_filename then io_return PutNone
     else
       io_bind (io_lift (statinfo self env (source_dir self) filename)) (\<lambda>fileinfo.
       case scp_put env source_filename destination_filename of
         None \<Rightarrow> ([ScpPut source_filename destination_filename],
                   Inr (PutPair (Some fileinfo) selection))
       | Some (IsADirectoryError msg) \<Rightarrow> io_return (PutPair None selection)
       | Some e \<Rightarrow> io_raise e))))"

section \<open>The audit record\<close>

text \<open>
  \<^verbatim>\<open>a, b = v\<close>: a value that cannot be iterated raises TypeError, an iterable that has
  not exactly two items raises ValueError. A string is an iterable of its characters.
\<close>

definition unpack_pair :: "pyval \<Rightarrow> exn + (pyval \<times> pyval)" where
  "unpack_pair v =
     (case v of
        PNone \<Rightarrow> Inl (TypeError ''cannot unpack non-iterable NoneType object'')
      | PStr s \<Rightarrow> (case s of [a, b] \<Rightarrow> Inr (PStr [a], PStr [b])
                            | _ \<Rightarrow> Inl (ValueError ''wrong number of values to unpack''))
      | PTuple xs \<Rightarrow> (case xs of [a, b] \<Rightarrow> Inr (a, b)
                               | _ \<Rightarrow> Inl (ValueError ''wrong number of values to unpack''))
      | PList xs \<Rightarrow> (case xs of [a, b] \<Rightarrow> Inr (a, b)
                              | _ \<Rightarrow> Inl (ValueError ''wrong number of values to unpack'')))"

text \<open>\<^verbatim>\<open>fileinfo['archive_filename']\<close>.\<close>

definition get_archive_filename :: "fileinfo \<Rightarrow> exn + string" where
  "get_archive_filename fileinfo =
     (case fi_archive_filename fileinfo of
        None \<Rightarrow> Inl (KeyError ''archive_filename'')
      | Some name \<Rightarrow> Inr name)"

text \<open>
  \<^verbatim>\<open>
  def update_history(self, fileinfo, status, destination_dir, mime_type):
      try:
          destination_dir, folder_hint = destination_dir
      except ValueError:
          folder_hint = None
      try:
          remote_folder = destination_dir.split('/')[-1:][0]
      except AttributeError:
          remote_folder = 'default'
      history = History(
          hostname=socket.gethostname(), remote_hostname=self.hostname,
          path=self.source_dir, remote_path=self.destination_dir,
          remote_folder=remote_folder, remote_folder_hint=folder_hint,
          archive_path=self.archive_dir, filename=fileinfo['filename'],
          filesize=fileinfo['size'], filetimestamp=fileinfo['timestamp'],
          mime_type=mime_type, status=status, sent_datetime=timezone.now(),
          user=self.user)
      if self.archive_dir:
          history.archive.name = 'archive/{}'.format(fileinfo['archive_filename'])
      history.save()
  \<close>
  Only a string has \<^verbatim>\<open>split\<close>; on any other value the attribute lookup raises
  AttributeError.
\<close>

definition update_history ::
  "handler \<Rightarrow> env \<Rightarrow> fileinfo \<Rightarrow> tx_status \<Rightarrow> pyval \<Rightarrow> string \<Rightarrow> unit io"
where
  "update_history self env fileinfo status destination_selection mime_type =
     io_bind (io_lift (case unpack_pair destination_selection of
                         Inr (d, hint) \<Rightarrow> Inr (d, hint)
                       | Inl (ValueError msg) \<Rightarrow> Inr (destination_selection, PNone)
                       | Inl e \<Rightarrow> Inl e)) (\<lambda>(destination_dir', folder_hint).
     let remote_folder = (case destination_dir' of
                            PStr s \<Rightarrow> last_segment s
                          | _ \<Rightarrow> ''default'');
         history = \<lparr> h_hostname = socket_gethostname env,
                     h_remote_hostname = hostname self,
                     h_path = source_dir self,
                     h_remote_path = destination_dir self,
                     h_remote_folder = remote_folder,
                     h_remote_folder_hint = folder_hint,
                     h_archive_path = archive_dir self,
                     h_filename = fi_filename fileinfo,
                     h_filesize = fi_size fileinfo,
                     h_filetimestamp = fi_timestamp fileinfo,
                     h_mime_type = mime_type,
                     h_status = status,
                     h_sent_datetime = timezone_now env,
                     h_user = user self,
                     h_archive_name = None \<rparr>
     in
     io_bind (io_lift (if truthy (archive_dir self)
                       then (case get_archive_filename fileinfo of
                               Inl e \<Rightarrow> Inl e
                             | Inr name \<Rightarrow> Inr (history\<lparr>h_archive_name := Some (''archive/'' @ name)\<rparr>))
                       else Inr history)) (\<lambda>history.
     io_call (history_save env history) (SaveHistory history)))"

section \<open>Handling an event\<close>

text \<open>
  \<^verbatim>\<open>mime_type in self.mime_types or self.mime_types is None\<close>: the membership test is
  evaluated first, and \<^verbatim>\<open>in\<close> on \<^verbatim>\<open>None\<close> raises TypeError.
\<close>

definition mime_type_allowed :: "string \<Rightarrow> string list option \<Rightarrow> exn + bool" where
  "mime_type_allowed mime_type mts =
     (case mts of
        None \<Rightarrow> Inl (TypeError ''argument of type NoneType is not iterable'')
      | Some ms \<Rightarrow> Inr (mime_type \<in> set ms \<or> mts = None))"

text \<open>\<^verbatim>\<open>fileinfo, destination_dir = self.put(...)\<close>.\<close>

definition unpack_put :: "put_result \<Rightarrow> exn + (fileinfo option \<times> pyval)" where
  "unpack_put r =
     (case r of
        PutNone \<Rightarrow> Inl (TypeError ''cannot unpack non-iterable NoneType object'')
      | PutPair fileinfo selection \<Rightarrow> Inr (fileinfo, selection))"

text \<open>
  \<^verbatim>\<open>
  def process_added(self, event):
      print('{} {}'.format(event.event_type, event.src_path))
      ssh = self.connect()
      filename = event.src_path.split('/')[-1:][0]
      path = os.path.join(self.source_dir, filename)
      mime_type = magic.from_file(path, mime=True)
      if mime_type in self.mime_types or self.mime_types is None:
          with SCPClient(ssh.get_transport()) as scp:
              fileinfo, destination_dir = self.put(scp, filename, mime_type)
              if fileinfo:
                  if self.archive_dir:
                      fileinfo['archive_filename'] = self.archive_filename(filename)
                      self.update_history(fileinfo, TX_SENT, destination_dir, mime_type)
                      os.rename(path, os.path.join(self.archive_dir, fileinfo['archive_filename']))
                  else:
                      os.remove(path)
  \<close>
  The dictionary of \<^verbatim>\<open>statinfo\<close> has four keys, so \<^verbatim>\<open>if fileinfo\<close> tests it against
  \<^verbatim>\<open>None\<close>. In the branch of \<^verbatim>\<open>if self.archive_dir\<close> the attribute is a string that is
  not empty.
\<close>

definition process_added :: "handler \<Rightarrow> env \<Rightarrow> event \<Rightarrow> unit io" where
  "process_added self env ev =
     io_bind (connect self env) (\<lambda>ssh.
     let filename = last_segment (src_path ev);
         path = path_join (source_dir self) filename in
     io_bind (io_lift (magic_from_file env path)) (\<lambda>mime_type.
     io_bind (io_lift (mime_type_allowed mime_type (mime_types self))) (\<lambda>allowed.
     if allowed then
       io_bind (put self env filename mime_type) (\<lambda>r.
       io_bind (io_lift (unpack_put r)) (\<lambda>(fileinfo, destination_dir').
       case fileinfo of
         None \<Rightarrow> io_return ()
       | Some fi \<Rightarrow>
           if truthy (archive_dir self) then
             let fi' = fi\<lparr>fi_archive_filename :=
                            Some (archive_filename (random_draw env) filename)\<rparr> in
             io_bind (update_history self env fi' TX_SENT destination_dir' mime_type) (\<lambda>u.
             io_bind (io_lift (get_archive_filename fi')) (\<lambda>name.
             let target = path_join (the (archive_dir self)) name in
             io_call (os_rename env path target) (Rename path target)))
           else io_call (os_remove env path) (Remove path)))
     else io_return ())))"

section \<open>Subfolders of the destination\<close>

text \<open>Storing under a key of a dictionary, and the truth value of \<^verbatim>\<open>d.get(k)\<close>.\<close>

fun dict_set :: "'k \<Rightarrow> 'v \<Rightarrow> ('k \<times> 'v) list \<Rightarrow> ('k \<times> 'v) list" where
  "dict_set k v [] = [(k, v)]"
| "dict_set k v ((k', v') # d) = (if k = k' then (k, v) # d else (k', v') # dict_set k v d)"

definition dict_truthy :: "('k \<times> 'v) list option \<Rightarrow> bool" where
  "dict_truthy v = (case v of None \<Rightarrow> False | Some d \<Rightarrow> d \<noteq> [])"

text \<open>
  \<^verbatim>\<open>
  @property
  def destination_subdirs(self):
      if not self._destination_subdirs.get(self.destination_dir):
          self._destination_subdirs = {self.destination_dir: {}}
          for remote_folder in RemoteFolder.objects.filter(base_path=self.destination_dir):
              fldr = self.remote_folder(self.destination_dir, remote_folder.folder)
              self._remote_subfolders[self.destination_dir].update({
                  remote_folder.name: fldr,
                  remote_folder.file_hint: fldr})
      return self._destination_subdirs
  \<close>
  The table of \<^verbatim>\<open>RemoteFolder\<close> rows is a parameter. The body of the loop reads the
  attributes \<^verbatim>\<open>remote_folder\<close> and \<^verbatim>\<open>_remote_subfolders\<close>, in this order.
\<close>

definition add_remote_folder :: "handler \<Rightarrow> remote_folder_row \<Rightarrow> exn + handler" where
  "add_remote_folder self row =
     (case remote_folder_attr self of
        None \<Rightarrow> Inl (AttributeError ''remote_folder'')
      | Some remote_folder \<Rightarrow>
          let fldr = remote_folder (destination_dir self) (rf_folder row) in
          (case remote_subfolders_attr self of
             None \<Rightarrow> Inl (AttributeError ''_remote_subfolders'')
           | Some subfolders \<Rightarrow>
               (case map_of subfolders (destination_dir self) of
                  None \<Rightarrow> Inl (KeyError (destination_dir self))
                | Some inner \<Rightarrow>
                    Inr (self\<lparr>remote_subfolders_attr :=
                           Some (dict_set (destination_dir self)
                                   (dict_set (rf_file_hint row) fldr
                                      (dict_set (rf_name row) fldr inner))
                                   subfolders)\<rparr>))))"

fun add_remote_folders :: "handler \<Rightarrow> remote_folder_row list \<Rightarrow> handler \<times> exn option" where
  "add_remote_folders self [] = (self, None)"
| "add_remote_folders self (row # rows) =
     (case add_remote_folder self row of
        Inl e \<Rightarrow> (self, Some e)
      | Inr self' \<Rightarrow> add_remote_folders self' rows)"

definition destination_subdirs ::
  "handler \<Rightarrow> remote_folder_row list \<Rightarrow> handler \<times> (exn + (string \<times> subdirs) list)"
where
  "destination_subdirs self table =
     (if \<not> dict_truthy (map_of (destination_subdirs_attr self) (destination_dir self)) then
        let self1 = self\<lparr>destination_subdirs_attr := [(destination_dir self, [])]\<rparr> in
        (case add_remote_folders self1
                (filter (\<lambda>row. rf_base_path row = destination_dir self) table) of
           (self2, Some e) \<Rightarrow> (self2, Inl e)
         | (self2, None) \<Rightarrow> (self2, Inr (destination_subdirs_attr self2)))
      else (self, Inr (destination_subdirs_attr self)))"

text \<open>
  \<^verbatim>\<open>
  def destination_subdir(self, key):
      try:
          return self.destination_subdirs[key]
      except KeyError:
          return self.destination_dir
  \<close>
  The property is evaluated inside the \<^verbatim>\<open>try\<close>. What is indexed is the dictionary keyed
  by destination directories, so the value found is a dictionary of subfolders.
\<close>

datatype subdir_value = SubPath string | SubMap subdirs

definition destination_subdir ::
  "handler \<Rightarrow> remote_folder_row list \<Rightarrow> string \<Rightarrow> handler \<times> (exn + subdir_value)"
where
  "destination_subdir self table key =
     (case destination_subdirs self table of
        (self', Inl (KeyError k)) \<Rightarrow> (self', Inr (SubPath (destination_dir self')))
      | (self', Inl e) \<Rightarrow> (self', Inl e)
      | (self', Inr d) \<Rightarrow>
          (case map_of d key of
             None \<Rightarrow> (self', Inr (SubPath (destination_dir self')))
           | Some inner \<Rightarrow> (self', Inr (SubMap inner))))"

section \<open>Which events reach the handler\<close>





section \<open>Notions used in the statements\<close>

text \<open>The condition under which \<^verbatim>\<open>select_destination_dir\<close> falls back to the default.\<close>

definition is_not_callable :: "exn \<Rightarrow> bool" where
  "is_not_callable e =
     (case e of TypeError msg \<Rightarrow> str_contains ''object is not callable'' msg | _ \<Rightarrow> False)"

text \<open>
  Whether, among the effects, a rename comes before the first audit record (vacuously so
  when there is no audit record).
\<close>

fun renamed_before_saved :: "effect list \<Rightarrow> bool" where
  "renamed_before_saved [] = True"
| "renamed_before_saved (Rename s d # es) = True"
| "renamed_before_saved (SaveHistory h # es) = False"
| "renamed_before_saved (e # es) = renamed_before_saved es"

section \<open>A scenario\<close>

text \<open>
  The end-to-end scenario of the specification: the source directory holds
  \<open>report.csv\<close>, the destination is \<open>/remote/in\<close>, no routing strategy is provided, and
  every external call succeeds. The archive directory and the allow-set vary.
\<close>

definition relay_handler :: "string option \<Rightarrow> string list option \<Rightarrow> handler" where
  "relay_handler arch mimes =
     RemoteFolderEventHandler_init (Some ''lab-host'') ''relay''
       ''/data/out'' ''/remote/in'' arch mimes"

definition quiet_env :: env where
  "quiet_env =
     \<lparr> connect_outcome = None,
       magic_from_file = (\<lambda>p. Inr ''text/csv''),
       folder_handler_select = (\<lambda>f m d. Inl (TypeError ''NoneType object is not callable'')),
       os_path_isfile = (\<lambda>p. True),
       os_stat = (\<lambda>p. Inr (120, 1700000000)),
       scp_put = (\<lambda>s d. None),
       os_rename = (\<lambda>s d. None),
       os_remove = (\<lambda>p. None),
       history_save = (\<lambda>h. None),
       socket_gethostname = ''relay-01'',
       timezone_now = 1700000100,
       random_draw = (\<lambda>i. 7 * i + 30) \<rparr>"

definition report_created :: event where
  "report_created =
     \<lparr> event_type = Created, src_path = ''/data/out/report.csv'', is_directory = False \<rparr>"

definition report_info :: fileinfo where
  "report_info =
     \<lparr> fi_path = ''/data/out'', fi_filename = ''report.csv'', fi_size = 120,
       fi_timestamp = 1700000000, fi_archive_filename = None \<rparr>"

definition pdf_rule :: remote_folder_row where
  "pdf_rule =
     \<lparr> rf_base_path = ''/remote/in'', rf_name = ''pdf'', rf_folder = ''pdfs'',
       rf_file_hint = ''application/pdf'' \<rparr>"

definition routed_selection :: pyval where
  "routed_selection = PTuple [PStr ''/remote/in/pdfs'', PStr ''pdf'']"

definition routed_record :: history where
  "routed_record =
     \<lparr> h_hostname = ''relay-01'', h_remote_hostname = ''lab-host'',
       h_path = ''/data/out'', h_remote_path = ''/remote/in'',
       h_remote_folder = ''pdfs'', h_remote_folder_hint = PStr ''pdf'',
       h_archive_path = None, h_filename = ''report.csv'', h_filesize = 120,
       h_filetimestamp = 1700000000, h_mime_type = ''application/pdf'',
       h_status = TX_SENT, h_sent_datetime = 1700000100, h_user = ''relay'',
       h_archive_name = None \<rparr>"

section \<open>Facts about the helpers\<close>

lemma split_on_not_Nil: "split_on sep s \<noteq> []"
  by (induction s) (auto split: list.splits)

lemma length_split_on: "length (split_on sep s) = Suc (count_list s sep)"
proof (induction s)
  case Nil
  show ?case by simp
next
  case (Cons c cs)
  then show ?case
    using split_on_not_Nil [of sep cs] by (auto split: list.splits)
qed

lemma split_on_no_sep: "sep \<notin> set s \<Longrightarrow> split_on sep s = [s]"
  by (induction s) auto

lemma split_on_one_sep:
  "sep \<notin> set f \<Longrightarrow> sep \<notin> set ext \<Longrightarrow> split_on sep (f @ sep # ext) = [f, ext]"
  by (induction f) (auto simp: split_on_no_sep)

lemma length_random_suffix: "length (random_suffix rnd) = 5"
  by (simp add: random_suffix_def)

lemma set_random_suffix: "set (random_suffix rnd) \<subseteq> set (ascii_uppercase @ digits)"
proof -
  have "choice (ascii_uppercase @ digits) r \<in> set (ascii_uppercase @ digits)" for r
    unfolding choice_def
    by (rule nth_mem) (simp add: ascii_uppercase_def digits_def)
  then show ?thesis
    by (auto simp: random_suffix_def)
qed

lemma archive_filename_two_fields:
  "split_on CHR ''.'' filename = [f, ext] \<Longrightarrow>
     archive_filename rnd filename = f @ ''_'' @ random_suffix rnd @ ''.'' @ ext"
  by (simp add: archive_filename_def)

lemma archive_filename_other:
  assumes "length (split_on CHR ''.'' filename) \<noteq> 2"
  shows "archive_filename rnd filename = filename @ ''_'' @ random_suffix rnd @ ''.''"
proof -
  have "(case split_on CHR ''.'' filename of [f, ext] \<Rightarrow> (f, ext) | _ \<Rightarrow> (filename, ''''))
          = (filename, '''')"
    using assms by (auto split: list.splits)
  then show ?thesis
    by (simp add: archive_filename_def)
qed

subsection \<open>Glob patterns\<close>




section \<open>Audit records of the effects\<close>

lemmas io_defs = io_bind_def io_lift_def io_call_def io_return_def io_raise_def

lemma audit_records_append: "audit_records (xs @ ys) = audit_records xs @ audit_records ys"
  by (induction xs rule: audit_records.induct) auto

lemma audit_records_bind:
  "audit_records (fst (io_bind m f)) =
     audit_records (fst m) @ (case snd m of Inl e \<Rightarrow> [] | Inr a \<Rightarrow> audit_records (fst (f a)))"
  by (cases m) (auto simp: io_bind_def audit_records_append split: sum.splits prod.splits)

lemma audit_records_lift [simp]: "audit_records (fst (io_lift r)) = []"
  by (simp add: io_lift_def)

lemma audit_records_return [simp]: "audit_records (fst (io_return a)) = []"
  by (simp add: io_return_def)

lemma audit_records_raise [simp]: "audit_records (fst (io_raise e)) = []"
  by (simp add: io_raise_def)

lemma audit_records_call:
  "audit_records (fst (io_call outcome eff)) =
     (case outcome of Some e \<Rightarrow> [] | None \<Rightarrow> audit_records [eff])"
  by (simp add: io_call_def split: option.splits)

text \<open>The copy step writes no audit record; \<^verbatim>\<open>update_history\<close> writes at most one.\<close>

lemma audit_records_put: "audit_records (fst (put self env filename mime_type)) = []"
  by (simp add: put_def audit_records_bind Let_def split: sum.splits option.splits exn.splits)

lemma audit_records_update_history:
  "length (audit_records (fst (update_history self env fi status selection mime_type))) \<le> 1"
  by (simp add: update_history_def audit_records_bind audit_records_call Let_def
           split: sum.splits option.splits prod.splits)

section \<open>When an event is audited\<close>

text \<open>An event leaves at most one audit record.\<close>

lemma process_added_at_most_one_audit:
  "length (audit_records (fst (process_added self env ev))) \<le> 1"
  using audit_records_update_history
  by (simp add: process_added_def connect_def audit_records_bind audit_records_call
        audit_records_put Let_def split: sum.splits option.splits prod.splits)

text \<open>
  An audit record is only written for a file whose type is in the allow-set, that the copy
  step copied, and with an archive directory configured: a skipped or failed transfer, and
  a transfer without archive directory, leave none.
\<close>

lemma process_added_audit_needs_copy:
  assumes "audit_records (fst (process_added self env ev)) \<noteq> []"
  shows "\<exists>mime_type ms fi selection.
           magic_from_file env (path_join (source_dir self) (last_segment (src_path ev)))
             = Inr mime_type
           \<and> mime_types self = Some ms \<and> mime_type \<in> set ms
           \<and> snd (put self env (last_segment (src_path ev)) mime_type)
               = Inr (PutPair (Some fi) selection)
           \<and> truthy (archive_dir self)"
  using assms
  by (auto simp: process_added_def connect_def audit_records_bind audit_records_call
        audit_records_put Let_def mime_type_allowed_def unpack_put_def
        io_lift_def io_call_def io_return_def
      split: sum.splits option.splits prod.splits if_splits put_result.splits)

lemma process_added_no_archive_no_audit:
  "\<not> truthy (archive_dir self) \<Longrightarrow> audit_records (fst (process_added self env ev)) = []"
  by (simp add: process_added_def connect_def audit_records_bind audit_records_call
        audit_records_put Let_def split: sum.splits option.splits prod.splits)

text \<open>Without an allow-set the handler raises before it copies anything.\<close>

lemma process_added_without_allow_set:
  assumes "mime_types self = None"
  shows "\<exists>tr e. process_added self env ev = (tr, Inl e) \<and> set tr \<subseteq> {Connect (hostname self)}"
  using assms
  by (auto simp: process_added_def connect_def io_defs Let_def mime_type_allowed_def
        split: sum.splits option.splits)

text \<open>When the source is no ordinary file, the copy step returns no pair.\<close>

lemma put_vanished_source:
  assumes "\<not> os_path_isfile env (path_join (source_dir self) filename)"
  shows "snd (put self env filename mime_type) \<noteq> Inr (PutPair fio selection)"
  using assms
  by (auto simp: put_def io_defs Let_def split: sum.splits option.splits)

text \<open>A selection that the copy step returns in a pair is not \<^verbatim>\<open>None\<close>.\<close>

lemma put_selection_not_None:
  "put self env filename mime_type = (tr, Inr (PutPair fio selection)) \<Longrightarrow> selection \<noteq> PNone"
  by (auto simp: put_def io_defs Let_def path_join_val_def
        split: sum.splits if_splits option.splits exn.splits pyval.splits)

lemma unpack_pair_cases:
  "selection \<noteq> PNone \<Longrightarrow>
     (\<exists>d hint. unpack_pair selection = Inr (d, hint))
     \<or> (\<exists>msg. unpack_pair selection = Inl (ValueError msg))"
  by (cases selection) (auto simp: unpack_pair_def split: list.splits)

lemma update_history_saves:
  assumes "selection \<noteq> PNone" and "truthy (archive_dir self)"
    and "fi_archive_filename fi = Some name" and "\<And>h. history_save env h = None"
  shows "\<exists>h. update_history self env fi status selection mime_type = ([SaveHistory h], Inr ())
            \<and> h_archive_name h = Some (''archive/'' @ name)"
proof -
  have "\<exists>d hint. (case unpack_pair selection of
                         Inr (d, hint) \<Rightarrow> Inr (d, hint)
                       | Inl (ValueError msg) \<Rightarrow> Inr (selection, PNone)
                       | Inl e \<Rightarrow> Inl e) = Inr (d, hint)"
    using unpack_pair_cases [OF assms(1)] by auto
  then show ?thesis
    using assms(2-4)
    by (auto simp: update_history_def io_defs Let_def get_archive_filename_def)
qed

section \<open>The folder hint of a record\<close>

lemma update_history_hint_of_pair:
  assumes "selection = PTuple [d, hint] \<or> selection = PList [d, hint]"
    and "SaveHistory h \<in> set (fst (update_history self env fi status selection mime_type))"
  shows "h_remote_folder_hint h = hint"
  using assms
  by (auto simp: update_history_def io_defs Let_def unpack_pair_def
        split: sum.splits option.splits if_splits)

text \<open>A bare path is iterated as any string: one of two characters is taken for a pair.\<close>

lemma update_history_hint_of_string:
  assumes "SaveHistory h \<in> set (fst (update_history self env fi status (PStr s) mime_type))"
  shows "h_remote_folder_hint h = (case s of [a, b] \<Rightarrow> PStr [b] | _ \<Rightarrow> PNone)"
  using assms
  by (auto simp: update_history_def io_defs Let_def unpack_pair_def
        split: sum.splits option.splits if_splits list.splits)

section \<open>The subfolder lookup\<close>

lemma add_remote_folders_keeps:
  "add_remote_folders self rows = (self', r) \<Longrightarrow>
     destination_dir self' = destination_dir self \<and>
     destination_subdirs_attr self' = destination_subdirs_attr self"
proof (induction rows arbitrary: self)
  case Nil
  then show ?case by simp
next
  case (Cons row rows)
  then show ?case
    by (fastforce simp: add_remote_folder_def Let_def split: sum.splits option.splits)
qed

text \<open>
  Whatever the rules and the attributes are, a path that \<^verbatim>\<open>destination_subdir\<close> returns
  is the bare destination directory.
\<close>

lemma destination_subdir_never_resolves:
  assumes "snd (destination_subdir self table key) = Inr (SubPath p)"
  shows "p = destination_dir self"
proof -
  obtain self' r where d: "destination_subdirs self table = (self', r)"
    by (cases "destination_subdirs self table")
  have "destination_dir self' = destination_dir self"
    using d add_remote_folders_keeps
    by (fastforce simp: destination_subdirs_def Let_def split: if_splits prod.splits option.splits)
  then show ?thesis
    using assms d
    by (auto simp: destination_subdir_def split: sum.splits exn.splits option.splits)
qed

section \<open>Claims\<close>

text \<open>
  C1. A transfer that succeeds is to leave exactly one audit record, also when no archive
  directory is configured. In the scenario without archive directory the file is copied
  and removed, and no audit record is written: \<^verbatim>\<open>update_history\<close> is called only in the
  branch of \<^verbatim>\<open>if self.archive_dir\<close>, although it tests \<^verbatim>\<open>self.archive_dir\<close> itself.
\<close>

theorem transfer_without_archive_leaves_no_audit_record:
  "process_added (relay_handler None (Some [''text/csv''])) quiet_env report_created
     = ([Connect ''lab-host'',
         ScpPut ''/data/out/report.csv'' ''/remote/in/report.csv'',
         Remove ''/data/out/report.csv''], Inr ())"
  by code_simp

text \<open>
  C2. With no allow-set (\<^verbatim>\<open>mime_types\<close> is \<^verbatim>\<open>None\<close>) the handler is to transfer every
  file. The membership test is evaluated before the test for \<^verbatim>\<open>None\<close> and raises
  TypeError: in the scenario nothing is copied, removed or recorded.
\<close>

theorem missing_allow_set_raises:
  "process_added (relay_handler None None) quiet_env report_created
     = ([Connect ''lab-host''],
        Inl (TypeError ''argument of type NoneType is not iterable''))"
  by code_simp

text \<open>
  C3. When the source is no ordinary file at copy time, the copy step is to return a pair
  with no file descriptor, and the handler is to raise nothing. The copy step returns the
  bare \<^verbatim>\<open>None\<close>, and the handler, which unpacks a pair, raises TypeError; nothing is
  archived, removed or recorded.
\<close>

theorem vanished_source_returns_bare_none:
  "put (relay_handler None (Some [''text/csv'']))
       (quiet_env\<lparr>os_path_isfile := (\<lambda>p. False)\<rparr>) ''report.csv'' ''text/csv''
     = ([], Inr PutNone)
   \<and> process_added (relay_handler None (Some [''text/csv'']))
       (quiet_env\<lparr>os_path_isfile := (\<lambda>p. False)\<rparr>) report_created
     = ([Connect ''lab-host''],
        Inl (TypeError ''cannot unpack non-iterable NoneType object''))"
  by code_simp

text \<open>
  C4, as stated: with archiving enabled the source is renamed into the archive directory
  before the audit record is written. In the scenario the audit record comes first.
\<close>

theorem audit_record_precedes_rename:
  "\<not> renamed_before_saved
       (fst (process_added (relay_handler (Some ''/data/archive'') (Some [''text/csv'']))
               quiet_env report_created))"
  by code_simp

text \<open>
  C4, amended. For every transfer that succeeds with archiving enabled (the session opens,
  the type is allowed, the copy step returns a file descriptor, and saving and renaming
  succeed), the archive name is generated first, then the audit record is written and
  names the archive as \<open>archive/\<close> followed by that name, and the source is renamed to
  that name in the archive directory last.
\<close>

theorem archive_name_recorded_then_renamed:
  assumes conn: "connect_outcome env = None"
    and mime: "magic_from_file env (path_join (source_dir self) (last_segment (src_path ev)))
                 = Inr mime_type"
    and allowed: "mime_types self = Some ms" "mime_type \<in> set ms"
    and copied: "put self env (last_segment (src_path ev)) mime_type
                   = (tr, Inr (PutPair (Some fi) selection))"
    and arch: "archive_dir self = Some a" "a \<noteq> []"
    and saved: "\<And>h. history_save env h = None"
    and renamed: "os_rename env (path_join (source_dir self) (last_segment (src_path ev)))
                    (path_join a (archive_filename (random_draw env) (last_segment (src_path ev))))
                  = None"
  shows "\<exists>h. process_added self env ev =
               (Connect (hostname self) # tr @
                  [SaveHistory h,
                   Rename (path_join (source_dir self) (last_segment (src_path ev)))
                          (path_join a (archive_filename (random_draw env)
                                          (last_segment (src_path ev))))],
                Inr ())
            \<and> h_archive_name h =
                Some (''archive/'' @ archive_filename (random_draw env)
                                       (last_segment (src_path ev)))"
proof -
  let ?filename = "last_segment (src_path ev)"
  let ?name = "archive_filename (random_draw env) ?filename"
  let ?fi = "fi\<lparr>fi_archive_filename := Some ?name\<rparr>"
  have t: "truthy (archive_dir self)"
    using arch by (simp add: truthy_def)
  have "selection \<noteq> PNone"
    using copied by (rule put_selection_not_None)
  then obtain h
    where h: "update_history self env ?fi TX_SENT selection mime_type = ([SaveHistory h], Inr ())"
      "h_archive_name h = Some (''archive/'' @ ?name)"
    using update_history_saves [OF _ t _ saved, of selection ?fi ?name TX_SENT mime_type]
    by auto
  have "process_added self env ev =
          (Connect (hostname self) # tr @
             [SaveHistory h,
              Rename (path_join (source_dir self) ?filename) (path_join a ?name)], Inr ())"
    using conn mime allowed copied arch t h(1) renamed
    by (simp add: process_added_def io_defs Let_def connect_def mime_type_allowed_def
          unpack_put_def get_archive_filename_def)
  with h(2) show ?thesis by blast
qed

theorem archive_name_recorded_then_renamed_witness:
  "\<exists>h. process_added (relay_handler (Some ''/data/archive'') (Some [''text/csv'']))
          quiet_env report_created
        = ([Connect ''lab-host'',
            ScpPut ''/data/out/report.csv'' ''/remote/in/report.csv'',
            SaveHistory h,
            Rename ''/data/out/report.csv'' ''/data/archive/report_4BIPW.csv''], Inr ())
      \<and> h_archive_name h = Some ''archive/report_4BIPW.csv''"
proof -
  let ?self = "relay_handler (Some ''/data/archive'') (Some [''text/csv''])"
  have seg: "last_segment (src_path report_created) = ''report.csv''"
    by code_simp
  have path: "path_join (source_dir ?self) ''report.csv'' = ''/data/out/report.csv''"
    by code_simp
  have name: "archive_filename (random_draw quiet_env) ''report.csv'' = ''report_4BIPW.csv''"
    by code_simp
  have target: "path_join ''/data/archive'' ''report_4BIPW.csv'' = ''/data/archive/report_4BIPW.csv''"
    by code_simp
  have host: "hostname ?self = ''lab-host''"
    by code_simp
  have conn: "connect_outcome quiet_env = None"
    by (simp add: quiet_env_def)
  have mime: "magic_from_file quiet_env
                (path_join (source_dir ?self) (last_segment (src_path report_created)))
              = Inr ''text/csv''"
    by (simp add: quiet_env_def)
  have allowed: "mime_types ?self = Some [''text/csv'']" "''text/csv'' \<in> set [''text/csv'']"
    by (simp_all add: relay_handler_def RemoteFolderEventHandler_init_def)
  have copied: "put ?self quiet_env (last_segment (src_path report_created)) ''text/csv''
                = ([ScpPut ''/data/out/report.csv'' ''/remote/in/report.csv''],
                   Inr (PutPair (Some report_info) (PStr ''/remote/in'')))"
    by code_simp
  have arch: "archive_dir ?self = Some ''/data/archive''" "''/data/archive'' \<noteq> []"
    by (simp_all add: relay_handler_def RemoteFolderEventHandler_init_def)
  have saved: "history_save quiet_env h = None" for h
    by (simp add: quiet_env_def)
  have renamed: "os_rename quiet_env
                   (path_join (source_dir ?self) (last_segment (src_path report_created)))
                   (path_join ''/data/archive''
                      (archive_filename (random_draw quiet_env)
                         (last_segment (src_path report_created))))
                 = None"
    by (simp add: quiet_env_def)
  show ?thesis
    using archive_name_recorded_then_renamed
            [OF conn mime allowed copied arch saved renamed]
    by (simp add: seg path name target host)
qed

text \<open>
  C5. When invoking the routing strategy raises a TypeError whose message says that an
  object is not callable, \<^verbatim>\<open>select_destination_dir\<close> returns the configured
  \<^verbatim>\<open>destination_dir\<close> unchanged; any other exception of the strategy reaches the caller
  unchanged; and a selection that the strategy returns is returned as it is.
\<close>

theorem select_destination_dir_fallback:
  "(folder_handler_select env filename mime_type (destination_dir self) = Inl e
      \<and> is_not_callable e \<longrightarrow>
      select_destination_dir self env filename mime_type = Inr (PStr (destination_dir self)))
   \<and> (folder_handler_select env filename mime_type (destination_dir self) = Inl e
      \<and> \<not> is_not_callable e \<longrightarrow>
      select_destination_dir self env filename mime_type = Inl e)
   \<and> (folder_handler_select env filename mime_type (destination_dir self) = Inr v \<longrightarrow>
      select_destination_dir self env filename mime_type = Inr v)"
  by (auto simp: select_destination_dir_def is_not_callable_def split: exn.splits)

theorem select_destination_dir_fallback_witness:
  "select_destination_dir (relay_handler None None) quiet_env ''report.csv'' ''text/csv''
     = Inr (PStr ''/remote/in'')
   \<and> select_destination_dir (relay_handler None None)
       (quiet_env\<lparr>folder_handler_select := (\<lambda>f m d. Inl (ValueError ''no rule''))\<rparr>)
       ''report.csv'' ''text/csv''
     = Inl (ValueError ''no rule'')
   \<and> select_destination_dir (relay_handler None None)
       (quiet_env\<lparr>folder_handler_select := (\<lambda>f m d. Inl (TypeError ''bad operand''))\<rparr>)
       ''report.csv'' ''text/csv''
     = Inl (TypeError ''bad operand'')"
proof -
  let ?self = "relay_handler None None"
  have dst: "destination_dir ?self = ''/remote/in''"
    by (simp add: relay_handler_def RemoteFolderEventHandler_init_def)
  have absent: "is_not_callable (TypeError ''NoneType object is not callable'')"
    by code_simp
  have faulty: "\<not> is_not_callable (ValueError ''no rule'')"
      "\<not> is_not_callable (TypeError ''bad operand'')"
    by code_simp+
  have a: "select_destination_dir ?self quiet_env ''report.csv'' ''text/csv''
             = Inr (PStr ''/remote/in'')"
    using select_destination_dir_fallback
            [of quiet_env "''report.csv''" "''text/csv''" ?self
                "TypeError ''NoneType object is not callable''"]
          absent
    by (simp add: dst quiet_env_def)
  have b: "select_destination_dir ?self
             (quiet_env\<lparr>folder_handler_select := (\<lambda>f m d. Inl (ValueError ''no rule''))\<rparr>)
             ''report.csv'' ''text/csv'' = Inl (ValueError ''no rule'')"
    using select_destination_dir_fallback
            [of "quiet_env\<lparr>folder_handler_select := (\<lambda>f m d. Inl (ValueError ''no rule''))\<rparr>"
                "''report.csv''" "''text/csv''" ?self "ValueError ''no rule''"]
          faulty(1)
    by simp
  have c: "select_destination_dir ?self
             (quiet_env\<lparr>folder_handler_select := (\<lambda>f m d. Inl (TypeError ''bad operand''))\<rparr>)
             ''report.csv'' ''text/csv'' = Inl (TypeError ''bad operand'')"
    using select_destination_dir_fallback
            [of "quiet_env\<lparr>folder_handler_select := (\<lambda>f m d. Inl (TypeError ''bad operand''))\<rparr>"
                "''report.csv''" "''text/csv''" ?self "TypeError ''bad operand''"]
          faulty(2)
    by simp
  show ?thesis
    using a b c by simp
qed

text \<open>
  C6. The archive name carries a suffix of five characters, each an uppercase letter or a
  digit, before the extension: a filename \<open>f.ext\<close> with exactly one \<open>.\<close> becomes
  \<open>f_SUFFIX.ext\<close> (so \<open>sample.pdf\<close> becomes \<open>sample_SUFFIX.pdf\<close>), and a filename whose
  number of \<open>.\<close> is not one is taken whole as the stem, with an empty extension
  (so \<open>noext\<close> becomes \<open>noext_SUFFIX.\<close>).
\<close>

theorem archive_filename_shape:
  "length (random_suffix rnd) = 5
   \<and> set (random_suffix rnd) \<subseteq> set (ascii_uppercase @ digits)
   \<and> (CHR ''.'' \<notin> set f \<and> CHR ''.'' \<notin> set ext \<longrightarrow>
        archive_filename rnd (f @ ''.'' @ ext) = f @ ''_'' @ random_suffix rnd @ ''.'' @ ext)
   \<and> (count_list filename CHR ''.'' \<noteq> 1 \<longrightarrow>
        archive_filename rnd filename = filename @ ''_'' @ random_suffix rnd @ ''.'')"
proof -
  have one: "archive_filename rnd (f @ ''.'' @ ext) = f @ ''_'' @ random_suffix rnd @ ''.'' @ ext"
    if "CHR ''.'' \<notin> set f" "CHR ''.'' \<notin> set ext"
    using that by (simp add: archive_filename_two_fields split_on_one_sep)
  have other: "archive_filename rnd filename = filename @ ''_'' @ random_suffix rnd @ ''.''"
    if "count_list filename CHR ''.'' \<noteq> 1"
    using that by (intro archive_filename_other) (simp add: length_split_on)
  show ?thesis
    using one other length_random_suffix set_random_suffix by blast
qed

theorem archive_filename_shape_witness:
  "archive_filename (\<lambda>i. 7 * i + 30) ''sample.pdf'' = ''sample_4BIPW.pdf''
   \<and> archive_filename (\<lambda>i. 7 * i + 30) ''noext'' = ''noext_4BIPW.''
   \<and> archive_filename (\<lambda>i. 7 * i + 30) ''a.tar.gz'' = ''a.tar.gz_4BIPW.''"
proof -
  have sfx: "random_suffix (\<lambda>i. 7 * i + 30) = ''4BIPW''"
    by (simp add: random_suffix_def choice_def ascii_uppercase_def digits_def upt_rec)
  have a: "archive_filename (\<lambda>i. 7 * i + 30) (''sample'' @ ''.'' @ ''pdf'')
             = ''sample'' @ ''_'' @ random_suffix (\<lambda>i. 7 * i + 30) @ ''.'' @ ''pdf''"
    using archive_filename_shape [of "\<lambda>i. 7 * i + 30" "''sample''" "''pdf''" "''noext''"]
    by simp
  have b: "archive_filename (\<lambda>i. 7 * i + 30) ''noext''
             = ''noext'' @ ''_'' @ random_suffix (\<lambda>i. 7 * i + 30) @ ''.''"
    using archive_filename_shape [of "\<lambda>i. 7 * i + 30" "''sample''" "''pdf''" "''noext''"]
    by simp
  have c: "archive_filename (\<lambda>i. 7 * i + 30) ''a.tar.gz''
             = ''a.tar.gz'' @ ''_'' @ random_suffix (\<lambda>i. 7 * i + 30) @ ''.''"
    using archive_filename_shape [of "\<lambda>i. 7 * i + 30" "''sample''" "''pdf''" "''a.tar.gz''"]
    by simp
  show ?thesis
    using a b c by (simp add: sfx)
qed

text \<open>
  C7. For a key that is the folder name of a routing rule of the destination,
  \<^verbatim>\<open>destination_subdir\<close> is to return the resolved subfolder. On a handler as
  \<^verbatim>\<open>__init__\<close> leaves it the call raises AttributeError, since the loop reads
  \<^verbatim>\<open>self.remote_folder\<close> and \<^verbatim>\<open>self._remote_subfolders\<close>, which nothing sets. On a
  handler that has both, the rules are stored under \<^verbatim>\<open>_remote_subfolders\<close> while the
  lookup indexes \<^verbatim>\<open>_destination_subdirs\<close> by the key, and the call returns the bare
  destination directory.
\<close>

theorem destination_subdir_of_rule_name:
  "snd (destination_subdir (relay_handler None None) [pdf_rule] ''pdf'')
     = Inl (AttributeError ''remote_folder'')
   \<and> snd (destination_subdir
            ((relay_handler None None)
               \<lparr>remote_subfolders_attr := Some [(''/remote/in'', [])],
                remote_folder_attr := Some path_join\<rparr>)
            [pdf_rule] ''pdf'')
     = Inr (SubPath ''/remote/in'')"
  by code_simp




text \<open>
  C9. A selection that is not a pair, such as a bare path, is to be recorded without
  folder hint. \<^verbatim>\<open>update_history\<close> unpacks the selection and catches ValueError, and a
  string of two characters unpacks into its characters: for the bare path \<open>/x\<close> the
  record carries the hint \<open>x\<close> and the folder name of \<open>/\<close>, which is empty.
\<close>

theorem two_character_path_split_into_hint:
  "map (\<lambda>h. (h_remote_folder h, h_remote_folder_hint h))
     (audit_records (fst (update_history (relay_handler None None) quiet_env report_info
                            TX_SENT (PStr ''/x'') ''text/csv'')))
   = [('''', PStr ''x'')]"
  by code_simp

text \<open>
  C10. Every audit record that \<^verbatim>\<open>update_history\<close> saves has the handler's configured
  \<^verbatim>\<open>destination_dir\<close> as its \<^verbatim>\<open>remote_path\<close>, whatever the routing selection is: the
  folder that the selection names shows in \<^verbatim>\<open>remote_folder\<close> and
  \<^verbatim>\<open>remote_folder_hint\<close> only.
\<close>

theorem update_history_remote_path:
  assumes "SaveHistory h \<in> set (fst (update_history self env fileinfo status selection mime_type))"
  shows "h_remote_path h = destination_dir self"
  using assms
  by (auto simp: update_history_def io_defs Let_def
        split: sum.splits exn.splits prod.splits option.splits if_splits)

theorem update_history_remote_path_witness:
  "fst (update_history (relay_handler None None) quiet_env report_info TX_SENT
          routed_selection ''application/pdf'') = [SaveHistory routed_record]
   \<and> h_remote_path routed_record = ''/remote/in''
   \<and> h_remote_folder routed_record = ''pdfs''
   \<and> h_remote_folder_hint routed_record = PStr ''pdf''"
proof -
  let ?self = "relay_handler None None"
  have saved: "fst (update_history ?self quiet_env report_info TX_SENT
                      routed_selection ''application/pdf'') = [SaveHistory routed_record]"
    by code_simp
  then have "SaveHistory routed_record
               \<in> set (fst (update_history ?self quiet_env report_info TX_SENT
                             routed_selection ''application/pdf''))"
    by simp
  then have "h_remote_path routed_record = destination_dir ?self"
    by (rule update_history_remote_path)
  moreover have "destination_dir ?self = ''/remote/in''"
    by (simp add: relay_handler_def RemoteFolderEventHandler_init_def)
  moreover have "h_remote_folder routed_record = ''pdfs''"
      "h_remote_folder_hint routed_record = PStr ''pdf''"
    by (simp_all add: routed_record_def)
  ultimately show ?thesis
    using saved by simp
qed

end
